theory Spec2Isabelle
  imports Main
begin

section \<open>JavaScript values used by the program\<close>

text \<open>
  Strings of the program are modelled as \<^typ>\<open>string\<close>. A value of type
  \<open>string | null\<close> (or an optional property) is a \<^typ>\<open>string option\<close>, with
  \<open>None\<close> for \<open>null\<close>/\<open>undefined\<close>.
\<close>

text \<open>JavaScript truthiness of a \<open>string | null\<close>: \<open>null\<close> and the empty string are falsy.\<close>

definition truthy :: "string option \<Rightarrow> bool" where
  "truthy v = (case v of None \<Rightarrow> False | Some s \<Rightarrow> s \<noteq> [])"

text \<open>\<open>a || b\<close> on a possibly missing string \<open>a\<close> and a string \<open>b\<close>.\<close>

definition or_else :: "string option \<Rightarrow> string \<Rightarrow> string" where
  "or_else a b = (case a of None \<Rightarrow> b | Some s \<Rightarrow> if s = [] then b else s)"

text \<open>A value interpolated into a template literal: \<open>undefined\<close> prints as its name.\<close>

definition interpolate :: "string option \<Rightarrow> string" where
  "interpolate v = (case v of None \<Rightarrow> ''undefined'' | Some s \<Rightarrow> s)"

text \<open>\<open>s.startsWith(p)\<close>.\<close>

definition startsWith :: "string \<Rightarrow> string \<Rightarrow> bool" where
  "startsWith s p = (take (length p) s = p)"

text \<open>
  A thrown value: an instance of \<open>Error\<close> with its \<open>message\<close>, or anything else
  (\<open>instanceof Error\<close> is false, and the program reads nothing from it).
\<close>

datatype thrown = ErrorObj string | NonError

section \<open>The regular expression of \<open>dataURLToImageData\<close>\<close>

text \<open>
  \<open>/^data:(image\/\w+);base64,(.*)$/\<close>, without flags: \<open>\w\<close> is \<open>[A-Za-z0-9_]\<close>, and
  \<open>.\<close> matches any character except a line terminator (of the characters of
  \<^typ>\<open>char\<close>, line feed and carriage return).
\<close>

definition is_word_char :: "char \<Rightarrow> bool" where
  "is_word_char c =
     (let n = (of_char c :: nat)
      in (48 \<le> n \<and> n \<le> 57) \<or> (65 \<le> n \<and> n \<le> 90) \<or> n = 95 \<or> (97 \<le> n \<and> n \<le> 122))"

definition is_line_terminator :: "char \<Rightarrow> bool" where
  "is_line_terminator c = ((of_char c :: nat) = 10 \<or> (of_char c :: nat) = 13)"

fun strip_prefix :: "string \<Rightarrow> string \<Rightarrow> string option" where
  "strip_prefix [] s = Some s"
| "strip_prefix (p # ps) [] = None"
| "strip_prefix (p # ps) (c # cs) = (if p = c then strip_prefix ps cs else None)"

record ImageData =
  mimeType :: string
  base64 :: string

definition dataURLToImageData :: "string \<Rightarrow> ImageData option" where
  "dataURLToImageData dataUrl =
     (case strip_prefix ''data:image/'' dataUrl of
        None \<Rightarrow> None
      | Some r \<Rightarrow>
          let w = takeWhile is_word_char r; r' = dropWhile is_word_char r
          in if w = [] then None
             else (case strip_prefix '';base64,'' r' of
                     None \<Rightarrow> None
                   | Some payload \<Rightarrow>
                       if list_ex is_line_terminator payload then None
                       else Some \<lparr>mimeType = ''image/'' @ w, base64 = payload\<rparr>))"

section \<open>The generation client (\<open>services/geminiService.ts\<close>)\<close>

datatype req_part = InlineDataPart string string | TextPart string

datatype modality = IMAGE

record request =
  model :: string
  parts :: "req_part list"
  responseModalities :: "modality list"

text \<open>A part of the response: its optional \<open>inlineData\<close> (with optional \<open>data\<close>).\<close>

record blob =
  blob_data :: "string option"
  blob_mimeType :: "string option"

record resp_part =
  inlineData :: "blob option"
  text_of :: "string option"

text \<open>
  A response either has \<open>candidates[0].content.parts\<close>, or lacks one of the
  links of that chain, and then reading it throws a \<open>TypeError\<close> whose message
  the engine chooses.
\<close>

datatype response = Response "resp_part list" | Malformed string

datatype service_outcome = Resolved response | Rejected thrown

definition fullPrompt :: "string \<Rightarrow> string" where
  "fullPrompt prompt =
     ''Generate a cartoon-style headshot based on the provided image. The style should be vibrant, friendly, and suitable for a profile picture. Apply the following user instructions: \"''
     @ prompt
     @ ''\". If no specific instructions are provided, create a standard, high-quality cartoon version.''"

definition build_request :: "ImageData \<Rightarrow> string \<Rightarrow> request" where
  "build_request baseImage prompt =
     \<lparr>model = ''gemini-2.5-flash-image'',
      parts = [InlineDataPart (base64 baseImage) (mimeType baseImage), TextPart (fullPrompt prompt)],
      responseModalities = [IMAGE]\<rparr>"

text \<open>The \<open>for\<close> loop over the parts: the first part with \<open>inlineData\<close> wins.\<close>

fun first_inline :: "resp_part list \<Rightarrow> blob option" where
  "first_inline [] = None"
| "first_inline (p # ps) = (case inlineData p of Some b \<Rightarrow> Some b | None \<Rightarrow> first_inline ps)"

text \<open>The body of \<open>try\<close>: what it returns, or what it throws.\<close>

definition try_body :: "service_outcome \<Rightarrow> thrown + string option" where
  "try_body out =
     (case out of
        Rejected t \<Rightarrow> Inl t
      | Resolved (Malformed m) \<Rightarrow> Inl (ErrorObj m)
      | Resolved (Response ps) \<Rightarrow>
          (case first_inline ps of
             Some b \<Rightarrow> Inr (blob_data b)
           | None \<Rightarrow> Inl (ErrorObj ''No image data found in the API response.'')))"

text \<open>The \<open>catch\<close> clause: every thrown value is replaced by a new \<open>Error\<close>.\<close>

definition catch_clause :: "thrown \<Rightarrow> thrown" where
  "catch_clause e =
     (case e of
        ErrorObj m \<Rightarrow> ErrorObj (''Failed to generate image: '' @ m)
      | NonError \<Rightarrow> ErrorObj ''An unknown error occurred while generating the image.'')"

definition receive :: "service_outcome \<Rightarrow> thrown + string option" where
  "receive out = (case try_body out of Inl e \<Rightarrow> Inl (catch_clause e) | Inr d \<Rightarrow> Inr d)"

text \<open>
  What the function finds outside itself: \<open>new GoogleGenAI(...)\<close> throws an
  \<open>Error\<close> with the given message, or gives a client whose
  \<open>models.generateContent\<close> maps the request to its outcome.
\<close>

datatype sdk = ConstructorThrows string | Client "request \<Rightarrow> service_outcome"

text \<open>
  The whole function. The client is constructed before the \<open>try\<close>: what the
  constructor throws leaves the function as it is.
\<close>

definition generateCartoonImage :: "sdk \<Rightarrow> ImageData \<Rightarrow> string \<Rightarrow> thrown + string option" where
  "generateCartoonImage ai baseImage prompt =
     (case ai of
        ConstructorThrows m \<Rightarrow> Inl (ErrorObj m)
      | Client service \<Rightarrow> receive (service (build_request baseImage prompt)))"

section \<open>The UI controller (\<open>App.tsx\<close>)\<close>

record app_state =
  prompt :: string
  originalImage :: "string option"
  generatedImage :: "string option"
  isLoading :: bool
  error :: "string option"

definition initial_state :: app_state where
  "initial_state =
     \<lparr>prompt = [], originalImage = None, generatedImage = None, isLoading = False, error = None\<rparr>"

text \<open>A selected file: its name and its declared media type (\<open>file.type\<close>).\<close>

record js_file =
  file_name :: string
  file_type :: string

text \<open>
  How a read started by \<open>readAsDataURL\<close> ends: with the base64 text of the
  contents, or with a failure.
\<close>

datatype read_outcome = ReadOk string | ReadFailed

text \<open>The value of \<open>reader.result\<close> after a successful \<open>readAsDataURL\<close>.\<close>

definition data_url :: "js_file \<Rightarrow> string \<Rightarrow> string" where
  "data_url f payload = ''data:'' @ file_type f @ '';base64,'' @ payload"

text \<open>
  \<open>handleFileChange\<close>, up to its return: the new state, and the file whose read
  it has started (if any).
\<close>

definition handleFileChange :: "app_state \<Rightarrow> js_file option \<Rightarrow> app_state \<times> js_file option" where
  "handleFileChange s selected =
     (case selected of
        None \<Rightarrow> (s, None)
      | Some f \<Rightarrow>
          if \<not> startsWith (file_type f) ''image/''
          then (s\<lparr>error := Some ''Please upload a valid image file (PNG, JPG, etc.).''\<rparr>, None)
          else (s, Some f))"

text \<open>The two callbacks of the reader; \<open>result\<close> is \<open>reader.result\<close>.\<close>

definition onloadend :: "app_state \<Rightarrow> string option \<Rightarrow> app_state" where
  "onloadend s result = s\<lparr>originalImage := result, generatedImage := None, error := None\<rparr>"

definition onerror :: "app_state \<Rightarrow> app_state" where
  "onerror s = s\<lparr>error := Some ''Failed to read the image file.''\<rparr>"

text \<open>
  The end of a read. A successful read fires \<open>loadend\<close> with the data URL as
  result; a failed one fires \<open>error\<close> and then \<open>loadend\<close>, with result \<open>null\<close>.
\<close>

definition read_ends :: "app_state \<Rightarrow> js_file \<Rightarrow> read_outcome \<Rightarrow> app_state" where
  "read_ends s f out =
     (case out of
        ReadOk payload \<Rightarrow> onloadend s (Some (data_url f payload))
      | ReadFailed \<Rightarrow> onloadend (onerror s) None)"

text \<open>
  \<open>handleGenerate\<close>, up to the \<open>await\<close>: the new state, and the arguments of the
  call of \<open>generateCartoonImage\<close> (if it is reached). \<open>!originalImage\<close> holds of
  \<open>null\<close> and of the empty string.
\<close>

definition handleGenerate_begin :: "app_state \<Rightarrow> app_state \<times> (ImageData \<times> string) option" where
  "handleGenerate_begin s =
     (case originalImage s of
        None \<Rightarrow> (s\<lparr>error := Some ''Please upload an image first.''\<rparr>, None)
      | Some dataUrl \<Rightarrow>
          if dataUrl = [] then (s\<lparr>error := Some ''Please upload an image first.''\<rparr>, None)
          else
            (case dataURLToImageData dataUrl of
               None \<Rightarrow> (s\<lparr>error := Some ''Invalid image data format.''\<rparr>, None)
             | Some imageData \<Rightarrow>
                 (s\<lparr>isLoading := True, error := None, generatedImage := None\<rparr>,
                  Some (imageData, prompt s))))"

text \<open>
  \<open>e.message\<close> of the caught value (a value that is not an \<open>Error\<close> stands for
  one without a message; \<open>generateCartoonImage\<close> throws none).
\<close>

definition message :: "thrown \<Rightarrow> string option" where
  "message e = (case e of ErrorObj m \<Rightarrow> Some m | NonError \<Rightarrow> None)"

text \<open>
  \<open>handleGenerate\<close>, from the \<open>await\<close> on: \<open>try\<close> or \<open>catch\<close>, then \<open>finally\<close>. The
  setters write single fields of the state as it is when the call settles.
\<close>

definition handleGenerate_settle :: "app_state \<Rightarrow> thrown + string option \<Rightarrow> app_state" where
  "handleGenerate_settle s r =
     (case r of
        Inr generatedBase64 \<Rightarrow>
          s\<lparr>generatedImage := Some (''data:image/png;base64,'' @ interpolate generatedBase64)\<rparr>
      | Inl e \<Rightarrow> s\<lparr>error := Some (or_else (message e) ''An unexpected error occurred.'')\<rparr>)
     \<lparr>isLoading := False\<rparr>"

text \<open>\<open>handleGenerate\<close> run to its end, with no other event in between.\<close>

definition handleGenerate :: "sdk \<Rightarrow> app_state \<Rightarrow> app_state" where
  "handleGenerate ai s =
     (case handleGenerate_begin s of
        (s', None) \<Rightarrow> s'
      | (s', Some (imageData, p)) \<Rightarrow>
          handleGenerate_settle s' (generateCartoonImage ai imageData p))"

text \<open>The \<open>disabled\<close> attribute of the generate button.\<close>

definition generate_disabled :: "app_state \<Rightarrow> bool" where
  "generate_disabled s = (isLoading s \<or> \<not> truthy (originalImage s))"

section \<open>The page as a transition system\<close>

text \<open>
  The page: the state of the component, the reads in progress and the calls of
  \<open>generateCartoonImage\<close> in flight.
\<close>

record page =
  ui :: app_state
  reads :: "js_file list"
  calls :: "(ImageData \<times> string) list"

definition initial_page :: page where
  "initial_page = \<lparr>ui = initial_state, reads = [], calls = []\<rparr>"

datatype event =
    SelectFile "js_file option"
  | ReadEnds js_file read_outcome
  | EditPrompt string
  | ClickGenerate
  | CallSettles sdk

definition opt_list :: "'a option \<Rightarrow> 'a list" where
  "opt_list x = (case x of None \<Rightarrow> [] | Some a \<Rightarrow> [a])"

text \<open>
  One event; \<open>None\<close> when the page does not offer it (a disabled control, a read
  or a call that is not in progress). \<open>CallSettles ai\<close> is the end of the oldest call
  in flight, made with the SDK behaving as \<open>ai\<close>.
\<close>

definition step :: "page \<Rightarrow> event \<Rightarrow> page option" where
  "step pg ev =
     (case ev of
        SelectFile selected \<Rightarrow>
          (case handleFileChange (ui pg) selected of
             (s', started) \<Rightarrow> Some (pg\<lparr>ui := s', reads := reads pg @ opt_list started\<rparr>))
      | ReadEnds f out \<Rightarrow>
          if f \<in> set (reads pg)
          then Some (pg\<lparr>ui := read_ends (ui pg) f out, reads := remove1 f (reads pg)\<rparr>)
          else None
      | EditPrompt t \<Rightarrow>
          if isLoading (ui pg) then None else Some (pg\<lparr>ui := (ui pg)\<lparr>prompt := t\<rparr>\<rparr>)
      | ClickGenerate \<Rightarrow>
          if generate_disabled (ui pg) then None
          else (case handleGenerate_begin (ui pg) of
                  (s', call) \<Rightarrow> Some (pg\<lparr>ui := s', calls := calls pg @ opt_list call\<rparr>))
      | CallSettles ai \<Rightarrow>
          (case calls pg of
             [] \<Rightarrow> None
           | (imageData, p) # rest \<Rightarrow>
               Some (pg\<lparr>ui := handleGenerate_settle (ui pg) (generateCartoonImage ai imageData p),
                        calls := rest\<rparr>)))"

fun run :: "page \<Rightarrow> event list \<Rightarrow> page option" where
  "run pg [] = Some pg"
| "run pg (ev # evs) = (case step pg ev of None \<Rightarrow> None | Some pg' \<Rightarrow> run pg' evs)"

text \<open>
  The invariant of the page: the loading flag is set exactly while a call is in
  flight, at most one call is in flight, and no generated image is stored
  while the flag is set.
\<close>

definition page_inv :: "page \<Rightarrow> bool" where
  "page_inv pg =
     ((isLoading (ui pg) \<longleftrightarrow> calls pg \<noteq> []) \<and> length (calls pg) \<le> 1
      \<and> (isLoading (ui pg) \<longrightarrow> generatedImage (ui pg) = None))"

section \<open>Concrete inputs\<close>

definition png_file :: js_file where
  "png_file = \<lparr>file_name = ''me.png'', file_type = ''image/png''\<rparr>"

definition text_file :: js_file where
  "text_file = \<lparr>file_name = ''notes.txt'', file_type = ''text/plain''\<rparr>"

definition svg_file :: js_file where
  "svg_file = \<lparr>file_name = ''logo.svg'', file_type = ''image/svg+xml''\<rparr>"

definition image_service :: "request \<Rightarrow> service_outcome" where
  "image_service r =
     Resolved (Response [\<lparr>inlineData = None, text_of = Some ''Here it is''\<rparr>,
                         \<lparr>inlineData = Some \<lparr>blob_data = Some ''QkJC'', blob_mimeType = Some ''image/jpeg''\<rparr>,
                          text_of = None\<rparr>])"

definition text_only_service :: "request \<Rightarrow> service_outcome" where
  "text_only_service r =
     Resolved (Response [\<lparr>inlineData = None, text_of = Some ''I cannot''\<rparr>,
                         \<lparr>inlineData = None, text_of = Some ''do that''\<rparr>])"

definition rate_limited_service :: "request \<Rightarrow> service_outcome" where
  "rate_limited_service r = Rejected (ErrorObj ''rate limited'')"

definition ready_state :: app_state where
  "ready_state =
     \<lparr>prompt = ''pixar style'', originalImage = Some ''data:image/png;base64,AAAA'',
      generatedImage = Some ''data:image/png;base64,T0xE'', isLoading = False, error = None\<rparr>"

definition png_image :: ImageData where
  "png_image = \<lparr>mimeType = ''image/png'', base64 = ''AAAA''\<rparr>"

definition loading_trace :: "event list" where
  "loading_trace = [SelectFile (Some png_file), ReadEnds png_file (ReadOk ''AAAA''), ClickGenerate]"

definition loading_page :: page where
  "loading_page =
     \<lparr>ui = \<lparr>prompt = [], originalImage = Some ''data:image/png;base64,AAAA'',
             generatedImage = None, isLoading = True, error = None\<rparr>,
      reads = [], calls = [(png_image, [])]\<rparr>"

definition jpeg_state :: app_state where
  "jpeg_state =
     \<lparr>prompt = [], originalImage = Some ''data:image/jpeg;base64,AAAA'',
      generatedImage = None, isLoading = False, error = None\<rparr>"

definition svg_state :: app_state where
  "svg_state =
     \<lparr>prompt = [], originalImage = Some ''data:image/svg+xml;base64,PHN2Zy8+'',
      generatedImage = None, isLoading = False, error = None\<rparr>"

text \<open>A service that rejects with the instruction it was sent as the message.\<close>

definition echo_service :: "request \<Rightarrow> service_outcome" where
  "echo_service r =
     (case parts r of
        [InlineDataPart d m, TextPart t] \<Rightarrow> Rejected (ErrorObj t)
      | _ \<Rightarrow> Rejected NonError)"

section \<open>What \<open>dataURLToImageData\<close> accepts\<close>

lemma strip_prefix_iff: "strip_prefix p s = Some r \<longleftrightarrow> s = p @ r"
  by (induction p s rule: strip_prefix.induct) auto

lemma semicolon_not_word: "\<not> is_word_char CHR '';''"
  by (simp add: is_word_char_def)

lemma takeWhile_word:
  "list_all is_word_char w \<Longrightarrow> takeWhile is_word_char (w @ CHR '';'' # t) = w"
  by (induction w) (auto simp: semicolon_not_word)

lemma dropWhile_word:
  "list_all is_word_char w \<Longrightarrow> dropWhile is_word_char (w @ CHR '';'' # t) = CHR '';'' # t"
  by (induction w) (auto simp: semicolon_not_word)

lemma dataURLToImageData_matches:
  assumes "w \<noteq> []" "list_all is_word_char w" "\<not> list_ex is_line_terminator payload"
  shows "dataURLToImageData (''data:image/'' @ w @ '';base64,'' @ payload)
           = Some \<lparr>mimeType = ''image/'' @ w, base64 = payload\<rparr>"
  using assms by (simp add: dataURLToImageData_def takeWhile_word dropWhile_word)

lemma dataURLToImageData_Some:
  assumes "dataURLToImageData dataUrl = Some i"
  shows "\<exists>w. w \<noteq> [] \<and> list_all is_word_char w \<and> \<not> list_ex is_line_terminator (base64 i)
           \<and> mimeType i = ''image/'' @ w
           \<and> dataUrl = ''data:'' @ mimeType i @ '';base64,'' @ base64 i"
proof -
  from assms obtain r where r: "strip_prefix ''data:image/'' dataUrl = Some r"
    by (auto simp: dataURLToImageData_def split: option.splits)
  let ?w = "takeWhile is_word_char r"
  from assms r have w: "?w \<noteq> []"
    by (auto simp: dataURLToImageData_def Let_def split: if_splits)
  from assms r w obtain p where p: "strip_prefix '';base64,'' (dropWhile is_word_char r) = Some p"
    by (auto simp: dataURLToImageData_def Let_def split: option.splits if_splits)
  from assms r w p have i: "\<not> list_ex is_line_terminator p" "i = \<lparr>mimeType = ''image/'' @ ?w, base64 = p\<rparr>"
    by (auto simp: dataURLToImageData_def Let_def split: if_splits)
  have "r = ?w @ dropWhile is_word_char r" by simp
  with p have "r = ?w @ '';base64,'' @ p" by (simp only: strip_prefix_iff)
  moreover from r have "dataUrl = ''data:image/'' @ r" by (simp only: strip_prefix_iff)
  moreover have "list_all is_word_char ?w"
    by (simp add: list_all_iff) (meson set_takeWhileD)
  ultimately show ?thesis using w i by auto
qed


lemma dataURLToImageData_None_iff:
  "dataURLToImageData dataUrl = None \<longleftrightarrow>
     \<not> (\<exists>w payload. w \<noteq> [] \<and> list_all is_word_char w \<and> \<not> list_ex is_line_terminator payload
            \<and> dataUrl = ''data:image/'' @ w @ '';base64,'' @ payload)"
proof
  assume n: "dataURLToImageData dataUrl = None"
  show "\<not> (\<exists>w payload. w \<noteq> [] \<and> list_all is_word_char w \<and> \<not> list_ex is_line_terminator payload
            \<and> dataUrl = ''data:image/'' @ w @ '';base64,'' @ payload)"
  proof
    assume "\<exists>w payload. w \<noteq> [] \<and> list_all is_word_char w \<and> \<not> list_ex is_line_terminator payload
            \<and> dataUrl = ''data:image/'' @ w @ '';base64,'' @ payload"
    then obtain w payload where "w \<noteq> []" "list_all is_word_char w"
        "\<not> list_ex is_line_terminator payload"
        "dataUrl = ''data:image/'' @ w @ '';base64,'' @ payload"
      by blast
    with dataURLToImageData_matches[of w payload] n show False by simp
  qed
next
  assume n: "\<not> (\<exists>w payload. w \<noteq> [] \<and> list_all is_word_char w \<and> \<not> list_ex is_line_terminator payload
            \<and> dataUrl = ''data:image/'' @ w @ '';base64,'' @ payload)"
  show "dataURLToImageData dataUrl = None"
  proof (cases "dataURLToImageData dataUrl")
    case None
    then show ?thesis .
  next
    case (Some i)
    from dataURLToImageData_Some[OF this] obtain w where
      "w \<noteq> []" "list_all is_word_char w" "\<not> list_ex is_line_terminator (base64 i)"
      "mimeType i = ''image/'' @ w" "dataUrl = ''data:'' @ mimeType i @ '';base64,'' @ base64 i"
      by blast
    then have "w \<noteq> [] \<and> list_all is_word_char w \<and> \<not> list_ex is_line_terminator (base64 i)
        \<and> dataUrl = ''data:image/'' @ w @ '';base64,'' @ base64 i"
      by simp
    with n show ?thesis by blast
  qed
qed

section \<open>The errors of \<open>generateCartoonImage\<close>\<close>

lemma generateCartoonImage_throws_Error:
  "generateCartoonImage ai img p = Inl e \<Longrightarrow> \<exists>m. e = ErrorObj m"
  by (auto simp: generateCartoonImage_def receive_def catch_clause_def
           split: sdk.splits sum.splits thrown.splits)

section \<open>The invariant of the page\<close>

lemma handleGenerate_begin_cases:
  "handleGenerate_begin s = (s', c) \<Longrightarrow>
     (c = None \<and> isLoading s' = isLoading s \<and> generatedImage s' = generatedImage s)
     \<or> (c \<noteq> None \<and> isLoading s' \<and> generatedImage s' = None \<and> error s' = None)"
  by (auto simp: handleGenerate_begin_def split: option.splits if_splits)

lemma settle_fields:
  "isLoading (handleGenerate_settle s r) = False"
  by (simp add: handleGenerate_settle_def split: sum.splits)

lemma read_ends_fields:
  "isLoading (read_ends s f out) = isLoading s" "generatedImage (read_ends s f out) = None"
  by (simp_all add: read_ends_def onloadend_def onerror_def split: read_outcome.splits)

lemma handleFileChange_fields:
  "handleFileChange s sel = (s', st) \<Longrightarrow> isLoading s' = isLoading s \<and> generatedImage s' = generatedImage s"
  by (auto simp: handleFileChange_def split: option.splits if_splits)

lemma step_inv: "page_inv pg \<Longrightarrow> step pg ev = Some pg' \<Longrightarrow> page_inv pg'"
proof (cases ev)
  case (SelectFile sel)
  assume a: "page_inv pg" "step pg ev = Some pg'"
  obtain s' st where h: "handleFileChange (ui pg) sel = (s', st)" by force
  with a SelectFile have "pg' = pg\<lparr>ui := s', reads := reads pg @ opt_list st\<rparr>"
    by (simp add: step_def)
  with a handleFileChange_fields[OF h] show ?thesis by (simp add: page_inv_def)
next
  case (ReadEnds f out)
  assume a: "page_inv pg" "step pg ev = Some pg'"
  with ReadEnds have "pg' = pg\<lparr>ui := read_ends (ui pg) f out, reads := remove1 f (reads pg)\<rparr>"
    by (simp add: step_def split: if_splits)
  with a show ?thesis by (simp add: page_inv_def read_ends_fields)
next
  case (EditPrompt t)
  assume a: "page_inv pg" "step pg ev = Some pg'"
  with EditPrompt show ?thesis by (auto simp: step_def page_inv_def split: if_splits)
next
  case ClickGenerate
  assume a: "page_inv pg" "step pg ev = Some pg'"
  obtain s' c where h: "handleGenerate_begin (ui pg) = (s', c)" by force
  with a ClickGenerate have e: "\<not> isLoading (ui pg)" "pg' = pg\<lparr>ui := s', calls := calls pg @ opt_list c\<rparr>"
    by (auto simp: step_def generate_disabled_def split: if_splits)
  with a handleGenerate_begin_cases[OF h] show ?thesis
    by (auto simp: page_inv_def opt_list_def)
next
  case (CallSettles ai)
  assume a: "page_inv pg" "step pg ev = Some pg'"
  with CallSettles show ?thesis
    by (auto simp: step_def page_inv_def settle_fields split: list.splits)
qed

lemma run_inv: "page_inv pg \<Longrightarrow> run pg evs = Some pg' \<Longrightarrow> page_inv pg'"
  by (induction evs arbitrary: pg) (auto split: option.splits dest: step_inv)

lemma initial_inv: "page_inv initial_page"
  by (simp add: page_inv_def initial_page_def initial_state_def)

lemmas reachable_inv = run_inv[OF initial_inv]

section \<open>Evaluation of the concrete inputs\<close>

lemmas example_defs = png_file_def text_file_def svg_file_def image_service_def
  text_only_service_def rate_limited_service_def ready_state_def png_image_def loading_trace_def
  loading_page_def jpeg_state_def svg_state_def echo_service_def

lemmas model_defs = step_def handleFileChange_def startsWith_def opt_list_def read_ends_def
  onloadend_def onerror_def data_url_def generate_disabled_def truthy_def handleGenerate_begin_def
  dataURLToImageData_def is_word_char_def is_line_terminator_def handleGenerate_settle_def
  generateCartoonImage_def receive_def try_body_def catch_clause_def build_request_def
  message_def or_else_def interpolate_def initial_page_def initial_state_def handleGenerate_def

lemma png_decodes: "dataURLToImageData ''data:image/png;base64,AAAA'' = Some png_image"
  by (simp add: dataURLToImageData_def is_word_char_def is_line_terminator_def png_image_def)

lemma loading_trace_run: "run initial_page loading_trace = Some loading_page"
  by (simp add: example_defs model_defs)

lemma dataURLToImageData_Nil: "dataURLToImageData [] = None"
  by (simp add: dataURLToImageData_def)

lemma handleGenerate_begin_decoded:
  "originalImage s = Some dataUrl \<Longrightarrow> dataURLToImageData dataUrl = Some img \<Longrightarrow>
   handleGenerate_begin s = (s\<lparr>isLoading := True, error := None, generatedImage := None\<rparr>, Some (img, prompt s))"
  by (auto simp: handleGenerate_begin_def dataURLToImageData_Nil)

lemma first_inline_None: "first_inline ps = None \<longleftrightarrow> (\<forall>p\<in>set ps. inlineData p = None)"
  by (induction ps) (auto split: option.splits)

lemma handleGenerate_decoded:
  "originalImage s = Some dataUrl \<Longrightarrow> dataURLToImageData dataUrl = Some img \<Longrightarrow>
   handleGenerate ai s
     = handleGenerate_settle (s\<lparr>isLoading := True, error := None, generatedImage := None\<rparr>)
         (generateCartoonImage ai img (prompt s))"
  by (simp add: handleGenerate_def handleGenerate_begin_decoded)

section \<open>The claims\<close>

subsection \<open>C1: the display modes\<close>

text \<open>
  C1 as stated fails. After a successful generation the generated image is
  stored; selecting a file that is not an image then sets the error and
  changes nothing else, so an error message and a generated image are set in
  the same reachable state.
\<close>

theorem display_modes_not_exclusive:
  "run initial_page (loading_trace @ [CallSettles (Client image_service), SelectFile (Some text_file)]) \<noteq> None
   \<and> error (ui (the (run initial_page (loading_trace @ [CallSettles (Client image_service), SelectFile (Some text_file)])))) \<noteq> None
   \<and> generatedImage (ui (the (run initial_page (loading_trace @ [CallSettles (Client image_service), SelectFile (Some text_file)])))) \<noteq> None"
  by (simp add: example_defs model_defs)

text \<open>
  C1, amended: in every state of the page reachable from the initial one by
  the events (file selection, end of a read, prompt edit, generate click,
  end of the call), the loading flag and a stored generated image never
  hold together. (An error message can be set together with either.)
\<close>

theorem loading_excludes_generated_image:
  "run initial_page evs = Some pg \<Longrightarrow> \<not> (isLoading (ui pg) \<and> generatedImage (ui pg) \<noteq> None)"
  using reachable_inv[of evs pg] by (auto simp: page_inv_def)

theorem loading_excludes_generated_image_witness:
  "run initial_page loading_trace = Some loading_page \<and> isLoading (ui loading_page)
   \<and> \<not> (isLoading (ui loading_page) \<and> generatedImage (ui loading_page) \<noteq> None)"
  using loading_excludes_generated_image[OF loading_trace_run] loading_trace_run
  by (simp add: loading_page_def)

subsection \<open>C8: the state while a request is in flight\<close>

text \<open>
  C8 as stated fails. The file input stays enabled while a request is in
  flight, and selecting a file that is not an image sets the error with the
  loading flag still true.
\<close>

theorem error_set_while_loading:
  "run initial_page (loading_trace @ [SelectFile (Some text_file)]) \<noteq> None
   \<and> isLoading (ui (the (run initial_page (loading_trace @ [SelectFile (Some text_file)]))))
   \<and> error (ui (the (run initial_page (loading_trace @ [SelectFile (Some text_file)])))) \<noteq> None"
  by (simp add: example_defs model_defs)

text \<open>
  C8, amended: the generate handler sets the error and the generated image to
  null in the same step that sets the loading flag, before the call of the
  service; and in every reachable state where the loading flag is true, a
  call is in flight and the generated image is null.
\<close>

theorem generate_clears_when_loading_starts:
  "(handleGenerate_begin s = (s', Some c) \<longrightarrow>
       isLoading s' \<and> error s' = None \<and> generatedImage s' = None)
   \<and> (run initial_page evs = Some pg \<and> isLoading (ui pg) \<longrightarrow>
       calls pg \<noteq> [] \<and> generatedImage (ui pg) = None)"
proof (rule conjI; rule impI)
  assume "handleGenerate_begin s = (s', Some c)"
  from handleGenerate_begin_cases[OF this]
  show "isLoading s' \<and> error s' = None \<and> generatedImage s' = None" by auto
next
  assume "run initial_page evs = Some pg \<and> isLoading (ui pg)"
  with reachable_inv[of evs pg]
  show "calls pg \<noteq> [] \<and> generatedImage (ui pg) = None" by (auto simp: page_inv_def)
qed

theorem generate_clears_when_loading_starts_witness:
  "handleGenerate_begin ready_state
     = (ready_state\<lparr>isLoading := True, error := None, generatedImage := None\<rparr>, Some (png_image, ''pixar style''))
   \<and> run initial_page loading_trace = Some loading_page \<and> isLoading (ui loading_page)
   \<and> calls loading_page \<noteq> [] \<and> generatedImage (ui loading_page) = None"
proof -
  have b: "handleGenerate_begin ready_state
     = (ready_state\<lparr>isLoading := True, error := None, generatedImage := None\<rparr>, Some (png_image, ''pixar style''))"
    using handleGenerate_begin_decoded[of ready_state _ png_image] png_decodes
    by (simp add: ready_state_def)
  have l: "isLoading (ui loading_page)" by (simp add: loading_page_def)
  from generate_clears_when_loading_starts[of ready_state _ "(png_image, ''pixar style'')" loading_trace loading_page]
    b l loading_trace_run
  show ?thesis by simp
qed

subsection \<open>C2: a response without an inline image\<close>

text \<open>
  C2: when the response's parts, however many, hold no part with inline image
  data, \<open>generateCartoonImage\<close> fails with the no-image error (which its own
  \<open>catch\<close> wraps like every other), and \<open>handleGenerate\<close> ends with that error
  message set, no generated image and the loading flag false.
\<close>

theorem no_inline_image_fails:
  assumes "originalImage s = Some dataUrl" "dataURLToImageData dataUrl = Some img"
      and "service (build_request img (prompt s)) = Resolved (Response ps)"
      and "\<forall>p\<in>set ps. inlineData p = None"
  shows "generateCartoonImage (Client service) img (prompt s)
           = Inl (ErrorObj ''Failed to generate image: No image data found in the API response.'')
         \<and> handleGenerate (Client service) s
           = s\<lparr>isLoading := False,
               error := Some ''Failed to generate image: No image data found in the API response.'',
               generatedImage := None\<rparr>"
proof -
  from assms(4) have "first_inline ps = None" by (simp add: first_inline_None)
  with assms(3) have g: "generateCartoonImage (Client service) img (prompt s)
      = Inl (ErrorObj ''Failed to generate image: No image data found in the API response.'')"
    by (simp add: generateCartoonImage_def receive_def try_body_def catch_clause_def)
  with handleGenerate_decoded[OF assms(1,2), of "Client service"] show ?thesis
    by (simp add: handleGenerate_settle_def message_def or_else_def)
qed

theorem no_inline_image_fails_witness:
  "handleGenerate (Client text_only_service) ready_state
     = \<lparr>prompt = ''pixar style'', originalImage = Some ''data:image/png;base64,AAAA'',
        generatedImage = None, isLoading = False,
        error = Some ''Failed to generate image: No image data found in the API response.''\<rparr>
   \<and> handleGenerate (Client (\<lambda>r. Resolved (Response []))) ready_state
     = \<lparr>prompt = ''pixar style'', originalImage = Some ''data:image/png;base64,AAAA'',
        generatedImage = None, isLoading = False,
        error = Some ''Failed to generate image: No image data found in the API response.''\<rparr>"
proof -
  have o: "originalImage ready_state = Some ''data:image/png;base64,AAAA''"
    by (simp add: ready_state_def)
  have t: "text_only_service (build_request png_image (prompt ready_state))
      = Resolved (Response [\<lparr>inlineData = None, text_of = Some ''I cannot''\<rparr>,
                            \<lparr>inlineData = None, text_of = Some ''do that''\<rparr>])"
    by (simp add: text_only_service_def)
  have n: "\<forall>p\<in>set [\<lparr>inlineData = None, text_of = Some ''I cannot''\<rparr>,
                      \<lparr>inlineData = None, text_of = Some ''do that''\<rparr>]. inlineData p = None"
    by simp
  have e: "\<forall>p\<in>set ([] :: resp_part list). inlineData p = None" by simp
  from no_inline_image_fails[where service = text_only_service, OF o png_decodes t n]
    no_inline_image_fails[where service = "\<lambda>r. Resolved (Response [])" and ps = "[]", OF o png_decodes refl e]
  show ?thesis by (simp add: ready_state_def)
qed

subsection \<open>C3: errors of the service\<close>

text \<open>
  C3: whatever the call of the service rejects with, \<open>generateCartoonImage\<close>
  fails with one \<open>Error\<close>, whose message is \<open>Failed to generate image: \<close> followed
  by the message of the rejection when that is an \<open>Error\<close>, and a fixed message
  otherwise; \<open>handleGenerate\<close> ends with that message as the error, the loading
  flag false and no generated image. At a service that throws
  \<open>rate limited\<close> the error is \<open>Failed to generate image: rate limited\<close>.
\<close>

theorem service_errors_wrapped:
  assumes "originalImage s = Some dataUrl" "dataURLToImageData dataUrl = Some img"
      and "service (build_request img (prompt s)) = Rejected t"
  shows "generateCartoonImage (Client service) img (prompt s)
           = Inl (ErrorObj (case t of
                              ErrorObj msg \<Rightarrow> ''Failed to generate image: '' @ msg
                            | NonError \<Rightarrow> ''An unknown error occurred while generating the image.''))
         \<and> handleGenerate (Client service) s
           = s\<lparr>isLoading := False,
               error := Some (case t of
                                ErrorObj msg \<Rightarrow> ''Failed to generate image: '' @ msg
                              | NonError \<Rightarrow> ''An unknown error occurred while generating the image.''),
               generatedImage := None\<rparr>"
proof -
  from assms(3) have g: "generateCartoonImage (Client service) img (prompt s)
           = Inl (ErrorObj (case t of
                              ErrorObj msg \<Rightarrow> ''Failed to generate image: '' @ msg
                            | NonError \<Rightarrow> ''An unknown error occurred while generating the image.''))"
    by (simp add: generateCartoonImage_def receive_def try_body_def catch_clause_def
             split: thrown.splits)
  with handleGenerate_decoded[OF assms(1,2), of "Client service"] show ?thesis
    by (simp add: handleGenerate_settle_def message_def or_else_def split: thrown.splits)
qed

theorem service_errors_wrapped_witness:
  "handleGenerate (Client rate_limited_service) ready_state
     = \<lparr>prompt = ''pixar style'', originalImage = Some ''data:image/png;base64,AAAA'',
        generatedImage = None, isLoading = False,
        error = Some ''Failed to generate image: rate limited''\<rparr>
   \<and> handleGenerate (Client (\<lambda>r. Rejected NonError)) ready_state
     = \<lparr>prompt = ''pixar style'', originalImage = Some ''data:image/png;base64,AAAA'',
        generatedImage = None, isLoading = False,
        error = Some ''An unknown error occurred while generating the image.''\<rparr>"
proof -
  have o: "originalImage ready_state = Some ''data:image/png;base64,AAAA''"
    by (simp add: ready_state_def)
  have r: "rate_limited_service (build_request png_image (prompt ready_state))
      = Rejected (ErrorObj ''rate limited'')"
    by (simp add: rate_limited_service_def)
  from service_errors_wrapped[where service = rate_limited_service, OF o png_decodes r]
    service_errors_wrapped[where service = "\<lambda>r. Rejected NonError" and t = NonError, OF o png_decodes refl]
  show ?thesis by (simp add: ready_state_def)
qed

subsection \<open>C4: the style text in the instruction\<close>

text \<open>
  C4: for every stored image that decodes, \<open>handleGenerate\<close> consults the
  service at exactly one request, whose text part is the fixed instruction with
  the style text of the state between its quotation marks, followed by the
  fallback sentence for the case of no instructions. This holds of the empty
  style text and of every other.
\<close>

theorem style_embedded_in_instruction:
  assumes "originalImage s = Some dataUrl" "dataURLToImageData dataUrl = Some img"
  shows "handleGenerate (Client service) s
           = handleGenerate_settle (s\<lparr>isLoading := True, error := None, generatedImage := None\<rparr>)
               (receive (service
                  \<lparr>model = ''gemini-2.5-flash-image'',
                   parts = [InlineDataPart (base64 img) (mimeType img),
                            TextPart (''Generate a cartoon-style headshot based on the provided image. The style should be vibrant, friendly, and suitable for a profile picture. Apply the following user instructions: \"''
                                      @ prompt s
                                      @ ''\". If no specific instructions are provided, create a standard, high-quality cartoon version.'')],
                   responseModalities = [IMAGE]\<rparr>))"
  using handleGenerate_decoded[OF assms, of "Client service"]
  by (simp add: generateCartoonImage_def build_request_def fullPrompt_def)

theorem style_embedded_in_instruction_witness:
  "error (handleGenerate (Client echo_service) ready_state)
     = Some ''Failed to generate image: Generate a cartoon-style headshot based on the provided image. The style should be vibrant, friendly, and suitable for a profile picture. Apply the following user instructions: \"pixar style\". If no specific instructions are provided, create a standard, high-quality cartoon version.''
   \<and> error (handleGenerate (Client echo_service) (ready_state\<lparr>prompt := []\<rparr>))
     = Some ''Failed to generate image: Generate a cartoon-style headshot based on the provided image. The style should be vibrant, friendly, and suitable for a profile picture. Apply the following user instructions: \"\". If no specific instructions are provided, create a standard, high-quality cartoon version.''"
proof -
  have o: "originalImage ready_state = Some ''data:image/png;base64,AAAA''"
    "originalImage (ready_state\<lparr>prompt := []\<rparr>) = Some ''data:image/png;base64,AAAA''"
    by (simp_all add: ready_state_def)
  from style_embedded_in_instruction[where service = echo_service, OF o(1) png_decodes]
    style_embedded_in_instruction[where service = echo_service, OF o(2) png_decodes]
  show ?thesis
    by (simp add: ready_state_def echo_service_def receive_def try_body_def catch_clause_def
        handleGenerate_settle_def message_def or_else_def)
qed

subsection \<open>C5: the loading flag after an attempt\<close>

text \<open>
  C5: however the call settles (with an image or with an error), the rest of
  \<open>handleGenerate\<close> leaves the loading flag false; and in every reachable state
  with the loading flag true the end of the call is possible, whatever the SDK
  does, and leads to a state with the flag false and no call in flight.
\<close>

theorem loading_cleared_after_attempt:
  "\<not> isLoading (handleGenerate_settle s r)
   \<and> (run initial_page evs = Some pg \<and> isLoading (ui pg) \<longrightarrow>
        (\<exists>pg'. step pg (CallSettles ai) = Some pg' \<and> \<not> isLoading (ui pg') \<and> calls pg' = []))"
proof (rule conjI)
  show "\<not> isLoading (handleGenerate_settle s r)" by (simp add: settle_fields)
next
  show "run initial_page evs = Some pg \<and> isLoading (ui pg) \<longrightarrow>
        (\<exists>pg'. step pg (CallSettles ai) = Some pg' \<and> \<not> isLoading (ui pg') \<and> calls pg' = [])"
  proof
    assume a: "run initial_page evs = Some pg \<and> isLoading (ui pg)"
    with reachable_inv[of evs pg] have "calls pg \<noteq> []" "length (calls pg) \<le> 1"
      by (auto simp: page_inv_def)
    then obtain c where "calls pg = [c]" by (cases "calls pg") auto
    then show "\<exists>pg'. step pg (CallSettles ai) = Some pg' \<and> \<not> isLoading (ui pg') \<and> calls pg' = []"
      by (cases c) (simp add: step_def settle_fields)
  qed
qed

theorem loading_cleared_after_attempt_witness:
  "run initial_page loading_trace = Some loading_page \<and> isLoading (ui loading_page)
   \<and> \<not> isLoading (ui (the (step loading_page (CallSettles (Client image_service)))))
   \<and> \<not> isLoading (ui (the (step loading_page (CallSettles (Client rate_limited_service)))))
   \<and> \<not> isLoading (handleGenerate_settle (ui loading_page) (Inr (Some ''QkJC'')))
   \<and> \<not> isLoading (handleGenerate_settle (ui loading_page) (Inl (ErrorObj ''rate limited'')))"
proof -
  have l: "isLoading (ui loading_page)" by (simp add: loading_page_def)
  from loading_cleared_after_attempt[of "ui loading_page" "Inr (Some ''QkJC'')" loading_trace
      loading_page "Client image_service"]
    loading_cleared_after_attempt[of "ui loading_page" "Inl (ErrorObj ''rate limited'')" loading_trace
      loading_page "Client rate_limited_service"]
    l loading_trace_run
  show ?thesis by auto
qed

subsection \<open>C6: a file that is not an image\<close>

text \<open>
  C6: for a selected file whose declared type does not start with \<open>image/\<close>,
  \<open>handleFileChange\<close> sets the error message, changes no other field of the
  state (source image and generated image keep their values) and starts no
  read.
\<close>

theorem non_image_file_rejected:
  "\<not> startsWith (file_type f) ''image/'' \<Longrightarrow>
     handleFileChange s (Some f)
       = (s\<lparr>error := Some ''Please upload a valid image file (PNG, JPG, etc.).''\<rparr>, None)
     \<and> step pg (SelectFile (Some f))
       = Some (pg\<lparr>ui := (ui pg)\<lparr>error := Some ''Please upload a valid image file (PNG, JPG, etc.).''\<rparr>\<rparr>)"
  by (simp add: handleFileChange_def step_def opt_list_def)

theorem non_image_file_rejected_witness:
  "handleFileChange ready_state (Some text_file)
     = (\<lparr>prompt = ''pixar style'', originalImage = Some ''data:image/png;base64,AAAA'',
         generatedImage = Some ''data:image/png;base64,T0xE'', isLoading = False,
         error = Some ''Please upload a valid image file (PNG, JPG, etc.).''\<rparr>, None)
   \<and> reads (the (step loading_page (SelectFile (Some text_file)))) = []"
proof -
  have h: "\<not> startsWith (file_type text_file) ''image/''"
    by (simp add: startsWith_def text_file_def)
  from non_image_file_rejected[OF h, of ready_state loading_page]
  show ?thesis by (simp add: ready_state_def loading_page_def)
qed

subsection \<open>C7: a new source image\<close>

text \<open>
  C7: for a selected file whose declared type starts with \<open>image/\<close>,
  \<open>handleFileChange\<close> starts its read and changes nothing; when the read ends
  with the contents, the state (whatever it is by then) gets the data URL of
  the file as source image, no generated image and no error. From any page,
  the selection followed by the end of the read does exactly that.
\<close>

theorem new_source_clears_result:
  "startsWith (file_type f) ''image/'' \<Longrightarrow>
     handleFileChange s (Some f) = (s, Some f)
     \<and> read_ends s' f (ReadOk payload)
         = s'\<lparr>originalImage := Some (data_url f payload), generatedImage := None, error := None\<rparr>
     \<and> run pg [SelectFile (Some f), ReadEnds f (ReadOk payload)]
         = Some (pg\<lparr>ui := (ui pg)\<lparr>originalImage := Some (data_url f payload),
                                    generatedImage := None, error := None\<rparr>,
                    reads := remove1 f (reads pg @ [f])\<rparr>)"
  by (simp add: handleFileChange_def read_ends_def onloadend_def step_def opt_list_def)

theorem new_source_clears_result_witness:
  "run \<lparr>ui = ready_state\<lparr>error := Some ''Please upload a valid image file (PNG, JPG, etc.).''\<rparr>,
        reads = [], calls = []\<rparr>
       [SelectFile (Some png_file), ReadEnds png_file (ReadOk ''QkJD'')]
     = Some \<lparr>ui = \<lparr>prompt = ''pixar style'', originalImage = Some ''data:image/png;base64,QkJD'',
                    generatedImage = None, isLoading = False, error = None\<rparr>,
             reads = [], calls = []\<rparr>"
proof -
  have h: "startsWith (file_type png_file) ''image/''"
    by (simp add: startsWith_def png_file_def)
  from new_source_clears_result[OF h, of _ _ "''QkJD''"
      "\<lparr>ui = ready_state\<lparr>error := Some ''Please upload a valid image file (PNG, JPG, etc.).''\<rparr>,
        reads = [], calls = []\<rparr>"]
  show ?thesis by (simp add: ready_state_def data_url_def png_file_def)
qed

subsection \<open>C9: a stored image that the pattern does not match\<close>

text \<open>
  C9: when the generate button is enabled and the stored source image does not
  match the pattern of \<open>dataURLToImageData\<close>, \<open>handleGenerate\<close> sets the error
  \<open>Invalid image data format.\<close>, calls no service (its result does not depend on
  the SDK, and no call is added to the page) and leaves the loading flag
  false. A file declared as \<open>image/svg+xml\<close> passes the check of
  \<open>handleFileChange\<close>, and its data URL does not match, whatever its contents.
  (What the pattern matches is spelled out in \<open>dataURLToImageData_None_iff\<close>.)
\<close>

theorem unmatched_data_url_rejected:
  "(\<not> generate_disabled s \<and> originalImage s = Some dataUrl \<and> dataURLToImageData dataUrl = None \<longrightarrow>
      handleGenerate_begin s = (s\<lparr>error := Some ''Invalid image data format.''\<rparr>, None)
      \<and> handleGenerate ai s = s\<lparr>error := Some ''Invalid image data format.''\<rparr>
      \<and> \<not> isLoading (handleGenerate ai s)
      \<and> step \<lparr>ui = s, reads = rs, calls = cs\<rparr> ClickGenerate
          = Some \<lparr>ui = s\<lparr>error := Some ''Invalid image data format.''\<rparr>, reads = rs, calls = cs\<rparr>)
   \<and> (file_type f = ''image/svg+xml'' \<longrightarrow>
      startsWith (file_type f) ''image/'' \<and> dataURLToImageData (data_url f payload) = None)"
proof (rule conjI; rule impI)
  assume a: "\<not> generate_disabled s \<and> originalImage s = Some dataUrl \<and> dataURLToImageData dataUrl = None"
  then have n: "dataUrl \<noteq> []" "\<not> isLoading s"
    by (auto simp: generate_disabled_def truthy_def)
  with a have b: "handleGenerate_begin s = (s\<lparr>error := Some ''Invalid image data format.''\<rparr>, None)"
    by (simp add: handleGenerate_begin_def)
  then have h: "handleGenerate ai s = s\<lparr>error := Some ''Invalid image data format.''\<rparr>"
    by (simp add: handleGenerate_def)
  from a b have "step \<lparr>ui = s, reads = rs, calls = cs\<rparr> ClickGenerate
          = Some \<lparr>ui = s\<lparr>error := Some ''Invalid image data format.''\<rparr>, reads = rs, calls = cs\<rparr>"
    by (simp add: step_def opt_list_def)
  with b h n show "handleGenerate_begin s = (s\<lparr>error := Some ''Invalid image data format.''\<rparr>, None)
      \<and> handleGenerate ai s = s\<lparr>error := Some ''Invalid image data format.''\<rparr>
      \<and> \<not> isLoading (handleGenerate ai s)
      \<and> step \<lparr>ui = s, reads = rs, calls = cs\<rparr> ClickGenerate
          = Some \<lparr>ui = s\<lparr>error := Some ''Invalid image data format.''\<rparr>, reads = rs, calls = cs\<rparr>"
    by simp
next
  assume "file_type f = ''image/svg+xml''"
  then show "startsWith (file_type f) ''image/'' \<and> dataURLToImageData (data_url f payload) = None"
    by (simp add: startsWith_def data_url_def dataURLToImageData_def is_word_char_def)
qed

theorem unmatched_data_url_rejected_witness:
  "run initial_page [SelectFile (Some svg_file), ReadEnds svg_file (ReadOk ''PHN2Zy8+'')]
     = Some \<lparr>ui = svg_state, reads = [], calls = []\<rparr>
   \<and> step \<lparr>ui = svg_state, reads = [], calls = []\<rparr> ClickGenerate
     = Some \<lparr>ui = \<lparr>prompt = [], originalImage = Some ''data:image/svg+xml;base64,PHN2Zy8+'',
                    generatedImage = None, isLoading = False,
                    error = Some ''Invalid image data format.''\<rparr>,
             reads = [], calls = []\<rparr>
   \<and> handleGenerate (Client image_service) svg_state
     = \<lparr>prompt = [], originalImage = Some ''data:image/svg+xml;base64,PHN2Zy8+'',
        generatedImage = None, isLoading = False, error = Some ''Invalid image data format.''\<rparr>
   \<and> dataURLToImageData (data_url svg_file ''PHN2Zy8+'') = None"
proof -
  have r: "run initial_page [SelectFile (Some svg_file), ReadEnds svg_file (ReadOk ''PHN2Zy8+'')]
     = Some \<lparr>ui = svg_state, reads = [], calls = []\<rparr>"
    by (simp add: svg_state_def svg_file_def step_def handleFileChange_def startsWith_def
        opt_list_def read_ends_def onloadend_def data_url_def initial_page_def initial_state_def)
  have g: "\<not> generate_disabled svg_state"
    by (simp add: generate_disabled_def truthy_def svg_state_def)
  have o: "originalImage svg_state = Some ''data:image/svg+xml;base64,PHN2Zy8+''"
    by (simp add: svg_state_def)
  have t: "file_type svg_file = ''image/svg+xml''" by (simp add: svg_file_def)
  have d: "dataURLToImageData ''data:image/svg+xml;base64,PHN2Zy8+'' = None"
    by (simp add: dataURLToImageData_def is_word_char_def)
  from unmatched_data_url_rejected[of svg_state "''data:image/svg+xml;base64,PHN2Zy8+''"
      "Client image_service" "[]" "[]" svg_file "''PHN2Zy8+''"] r g o t d
  show ?thesis by (simp add: svg_state_def)
qed

subsection \<open>C10: the stored result\<close>

text \<open>
  C10: when the first part of the response with inline data carries the bytes
  \<open>bytes\<close>, \<open>generateCartoonImage\<close> returns them and \<open>handleGenerate\<close> stores
  \<open>data:image/png;base64,\<close> followed by \<open>bytes\<close> as the generated image (with no
  error and the loading flag false), whatever the media type of the source
  image and the media type the response declares.
\<close>

theorem generated_image_is_png_data_url:
  assumes "originalImage s = Some dataUrl" "dataURLToImageData dataUrl = Some img"
      and "service (build_request img (prompt s)) = Resolved (Response ps)"
      and "first_inline ps = Some b" "blob_data b = Some bytes"
  shows "generateCartoonImage (Client service) img (prompt s) = Inr (Some bytes)
         \<and> handleGenerate (Client service) s
           = s\<lparr>isLoading := False, error := None,
               generatedImage := Some (''data:image/png;base64,'' @ bytes)\<rparr>"
proof -
  from assms(3-5) have g: "generateCartoonImage (Client service) img (prompt s) = Inr (Some bytes)"
    by (simp add: generateCartoonImage_def receive_def try_body_def)
  with handleGenerate_decoded[OF assms(1,2), of "Client service"] show ?thesis
    by (simp add: handleGenerate_settle_def interpolate_def)
qed

theorem generated_image_is_png_data_url_witness:
  "handleGenerate (Client image_service) jpeg_state
     = \<lparr>prompt = [], originalImage = Some ''data:image/jpeg;base64,AAAA'',
        generatedImage = Some ''data:image/png;base64,QkJC'', isLoading = False, error = None\<rparr>"
proof -
  have o: "originalImage jpeg_state = Some ''data:image/jpeg;base64,AAAA''"
    by (simp add: jpeg_state_def)
  have d: "dataURLToImageData ''data:image/jpeg;base64,AAAA''
      = Some \<lparr>mimeType = ''image/jpeg'', base64 = ''AAAA''\<rparr>"
    by (simp add: dataURLToImageData_def is_word_char_def is_line_terminator_def)
  have i: "image_service (build_request \<lparr>mimeType = ''image/jpeg'', base64 = ''AAAA''\<rparr> (prompt jpeg_state))
      = Resolved (Response [\<lparr>inlineData = None, text_of = Some ''Here it is''\<rparr>,
                            \<lparr>inlineData = Some \<lparr>blob_data = Some ''QkJC'', blob_mimeType = Some ''image/jpeg''\<rparr>,
                             text_of = None\<rparr>])"
    by (simp add: image_service_def)
  have f: "first_inline [\<lparr>inlineData = None, text_of = Some ''Here it is''\<rparr>,
                         \<lparr>inlineData = Some \<lparr>blob_data = Some ''QkJC'', blob_mimeType = Some ''image/jpeg''\<rparr>,
                          text_of = None\<rparr>]
      = Some \<lparr>blob_data = Some ''QkJC'', blob_mimeType = Some ''image/jpeg''\<rparr>"
    by simp
  have b: "blob_data \<lparr>blob_data = Some ''QkJC'', blob_mimeType = Some ''image/jpeg''\<rparr> = Some ''QkJC''"
    by simp
  from generated_image_is_png_data_url[where service = image_service, OF o d i f b]
  show ?thesis by (simp add: jpeg_state_def)
qed

end
